theory Spec2Isabelle
  imports Complex_Main
begin

section \<open>Text\<close>

text \<open>
  Python strings are modelled as \<^typ>\<open>string\<close>, read as text of 8-bit (Latin-1) code
  points. In that range the regular expression class \<^verbatim>\<open>\d\<close> is exactly the ten ASCII
  digits.
\<close>

definition isdigit :: "char \<Rightarrow> bool" where
  "isdigit c = (c \<in> set ''0123456789'')"

subsection \<open>The pattern \<^verbatim>\<open>TIME_PAT = (?:(\d{2})(\d{2}))|(\d{2})\<close>\<close>

text \<open>
  A match object is the triple of its groups 1, 2 and 3; a group that did not take part in
  the match is \<^term>\<open>None\<close>.
\<close>

type_synonym groups = "string option \<times> string option \<times> string option"

text \<open>
  Matching at the start of the text: the first alternative (four digits, groups 1 and 2)
  is tried before the second (two digits, group 3).
\<close>

definition TIME_PAT_match :: "string \<Rightarrow> groups option" where
  "TIME_PAT_match s =
     (if 4 \<le> length s \<and> list_all isdigit (take 4 s)
      then Some (Some (take 2 s), Some (take 2 (drop 2 s)), None)
      else if 2 \<le> length s \<and> list_all isdigit (take 2 s)
      then Some (None, None, Some (take 2 s))
      else None)"

text \<open>\<^verbatim>\<open>TIME_PAT.search\<close>: the match at the leftmost position that has one.\<close>

fun TIME_PAT_search :: "string \<Rightarrow> groups option" where
  "TIME_PAT_search [] = None"
| "TIME_PAT_search (c # cs) =
     (case TIME_PAT_match (c # cs) of
        Some g \<Rightarrow> Some g
      | None \<Rightarrow> TIME_PAT_search cs)"

text \<open>Python truth of \<^verbatim>\<open>m.group(k)\<close>: the group took part and is not empty.\<close>

fun truthy :: "string option \<Rightarrow> bool" where
  "truthy None = False"
| "truthy (Some s) = (s \<noteq> [])"

definition to_time_label :: "string \<Rightarrow> string" where
  "to_time_label colname =
     (case TIME_PAT_search colname of
        None \<Rightarrow> colname
      | Some (g1, g2, g3) \<Rightarrow>
          if truthy g1 \<and> truthy g2 then the g1 @ '':'' @ the g2
          else if truthy g3 then the g3 @ '':00''
          else colname)"

definition TIME_ORDER :: "string list" where
  "TIME_ORDER = [''07:00'', ''11:00'', ''14:00'', ''16:00'', ''18:00'', ''21:00'']"

subsection \<open>Whitespace\<close>

text \<open>
  \<^verbatim>\<open>str.strip()\<close> removes the characters for which \<^verbatim>\<open>str.isspace\<close> holds; among the
  8-bit code points these are 9 to 13, 28 to 32, 133 and 160 (the no-break space
  \<^verbatim>\<open>\xa0\<close>).
\<close>

definition isspace :: "char \<Rightarrow> bool" where
  "isspace c = ((of_char c :: nat) \<in> {9..13} \<union> {28..32} \<union> {133, 160})"

definition strip :: "string \<Rightarrow> string" where
  "strip s = rev (dropWhile isspace (rev (dropWhile isspace s)))"

section \<open>Tables\<close>

text \<open>
  A float is a real number, an infinity or NaN. A cell of a table is a text, a float
  (NaN is the missing value of pandas), a timestamp (nanoseconds since the epoch) or the
  missing timestamp NaT.
\<close>

datatype number = Fin real | PosInf | NegInf | NaN

datatype cell = Text string | Number number | Stamp int | NaT

text \<open>
  The dtype of a column: one of the dtypes of numpy that \<^verbatim>\<open>pd.read_csv\<close> gives (datetime64,
  a numeric one, object for text), or an extension dtype of pandas: a datetime with a
  time zone, which \<^verbatim>\<open>parse_dates\<close> gives for dates written with an offset, or the string
  dtype that pandas 3 gives to text.
\<close>

datatype dtype = Datetime64 | Float64 | Object | DatetimeTZ | StringDtype

record column =
  dtype :: dtype
  cells :: "cell list"

text \<open>
  A \<^verbatim>\<open>DataFrame\<close> is the list of its named columns, in order. The tables of pandas that
  \<^verbatim>\<open>to_long\<close> reads have columns of one common length and pairwise different names.
\<close>

type_synonym dataframe = "(string \<times> column) list"

definition columns_of :: "dataframe \<Rightarrow> string list" where
  "columns_of df = map fst df"

text \<open>\<^verbatim>\<open>len(df)\<close>\<close>

definition nrows :: "dataframe \<Rightarrow> nat" where
  "nrows df = (case df of [] \<Rightarrow> 0 | (_, c) # _ \<Rightarrow> length (cells c))"

text \<open>
  \<^verbatim>\<open>df[name]\<close>. The pipeline reads a column only after it has checked that the name is
  among \<^verbatim>\<open>df.columns\<close>.
\<close>

definition getitem :: "dataframe \<Rightarrow> string \<Rightarrow> column" where
  "getitem df name = the (map_of df name)"

text \<open>\<^verbatim>\<open>df[name] = col\<close>: replaces the column in place, or appends a new one.\<close>

definition setitem :: "string \<Rightarrow> column \<Rightarrow> dataframe \<Rightarrow> dataframe" where
  "setitem name col df =
     (if name \<in> set (columns_of df)
      then map (\<lambda>(n, c). if n = name then (n, col) else (n, c)) df
      else df @ [(name, col)])"

text \<open>\<^verbatim>\<open>df.rename(columns={old: new})\<close> and \<^verbatim>\<open>df.drop(columns=[name])\<close>: each a new table.\<close>

definition rename_columns :: "string \<Rightarrow> string \<Rightarrow> dataframe \<Rightarrow> dataframe" where
  "rename_columns old new df = map (\<lambda>(n, c). (if n = old then new else n, c)) df"

definition drop_columns :: "string \<Rightarrow> dataframe \<Rightarrow> dataframe" where
  "drop_columns name df = filter (\<lambda>(n, c). n \<noteq> name) df"

subsection \<open>Coercions of pandas\<close>

text \<open>
  What \<^verbatim>\<open>pd.to_numeric(..., errors="coerce")\<close> makes of a cell that is not a float, and
  what \<^verbatim>\<open>pd.to_datetime(..., errors="coerce")\<close> makes of the cell at a position of a
  column (\<^term>\<open>None\<close> is NaT; the format may be inferred from the whole column), are
  parameters of the model. Under \<^verbatim>\<open>errors="coerce"\<close> neither raises: text that is not a
  number becomes NaN, a date that cannot be parsed becomes NaT.
\<close>

record coerce =
  numeric_of :: "cell \<Rightarrow> number"
  datetime_of :: "cell list \<Rightarrow> nat \<Rightarrow> int option"

definition to_numeric :: "coerce \<Rightarrow> cell \<Rightarrow> number" where
  "to_numeric K c = (case c of Number n \<Rightarrow> n | _ \<Rightarrow> numeric_of K c)"

definition to_datetime :: "coerce \<Rightarrow> column \<Rightarrow> column" where
  "to_datetime K col =
     \<lparr>dtype = Datetime64,
      cells = map (\<lambda>i. case datetime_of K (cells col) i of None \<Rightarrow> NaT | Some t \<Rightarrow> Stamp t)
                [0..<length (cells col)]\<rparr>"

text \<open>\<^verbatim>\<open>isna\<close>, and the comparisons of a float with a constant (false on NaN).\<close>

definition isna :: "cell \<Rightarrow> bool" where
  "isna c = (c = NaT \<or> c = Number NaN)"

fun num_ge :: "number \<Rightarrow> real \<Rightarrow> bool" where
  "num_ge (Fin v) x = (x \<le> v)"
| "num_ge PosInf x = True"
| "num_ge NegInf x = False"
| "num_ge NaN x = False"

fun num_le :: "number \<Rightarrow> real \<Rightarrow> bool" where
  "num_le (Fin v) x = (v \<le> x)"
| "num_le PosInf x = False"
| "num_le NegInf x = True"
| "num_le NaN x = False"

text \<open>
  \<^verbatim>\<open>col.astype(str).str.strip() != ""\<close> on one cell: \<^verbatim>\<open>astype(str)\<close> leaves a text as it
  is and writes every other cell as a text that is not blank (\<^verbatim>\<open>"nan"\<close> for NaN,
  \<^verbatim>\<open>"NaT"\<close>, the digits of a number or of a timestamp).
\<close>

fun nonblank :: "cell \<Rightarrow> bool" where
  "nonblank (Text s) = (strip s \<noteq> [])"
| "nonblank _ = True"

text \<open>
  \<^verbatim>\<open>pd.Categorical(values, categories=cats, ordered=True)\<close> on one value: a value outside
  the categories becomes the missing value.
\<close>

definition categorical :: "string list \<Rightarrow> string \<Rightarrow> string option" where
  "categorical cats v = (if v \<in> set cats then Some v else None)"

section \<open>Reshaping: \<^verbatim>\<open>to_long\<close>\<close>

text \<open>
  A row of the melted table, with the type of its \<^verbatim>\<open>Value\<close> as parameter (a raw cell
  before \<^verbatim>\<open>pd.to_numeric\<close>, a float after), and a row of the result.
\<close>

record 'v melted =
  Date :: cell
  Station :: cell
  Common_Location :: cell
  Location :: cell
  Time :: string
  Value :: 'v
  Source :: string

record long_record = "number melted" +
  TimeLabel :: "string option"

text \<open>
  The rows that
  \<^verbatim>\<open>df.melt(id_vars=id_vars, value_vars=cols, var_name="Time", value_name="Value")\<close>
  builds, with the \<^verbatim>\<open>Source\<close> column assigned next: the rows of the first reading column,
  then those of the second, and so on.
\<close>

definition melt_rows :: "dataframe \<Rightarrow> string list \<Rightarrow> string \<Rightarrow> cell melted list" where
  "melt_rows df value_vars src =
     concat (map (\<lambda>c. map (\<lambda>i.
        \<lparr>Date = cells (getitem df ''Date'') ! i,
         Station = cells (getitem df ''Station'') ! i,
         Common_Location = cells (getitem df ''Common Location'') ! i,
         Location = cells (getitem df ''Location'') ! i,
         Time = c,
         Value = cells (getitem df c) ! i,
         Source = src\<rparr>) [0..<nrows df]) value_vars)"

subsection \<open>Errors\<close>

datatype error = KeyError string | ValueError string | TypeError

text \<open>
  \<^verbatim>\<open>melt\<close> of pandas 2 refuses a table that already has a column with the name given as
  \<^verbatim>\<open>value_name\<close>, before it builds anything.
\<close>

definition value_name_message :: "string" where
  "value_name_message = ''value_name (Value) cannot match an element in the DataFrame columns.''"

definition melt :: "dataframe \<Rightarrow> string list \<Rightarrow> string \<Rightarrow> error + cell melted list" where
  "melt df value_vars src =
     (if ''Value'' \<in> set (columns_of df) then Inl (ValueError value_name_message)
      else Inr (melt_rows df value_vars src))"

text \<open>
  \<^verbatim>\<open>repr\<close> of a list of names, as the f-string of the error message prints it (the names
  are among the four required ones, which need no escaping).
\<close>

definition quote :: "string" where
  "quote = [CHR 0x27]"

fun join :: "string \<Rightarrow> string list \<Rightarrow> string" where
  "join sep [] = []"
| "join sep [x] = x"
| "join sep (x # y # ys) = x @ sep @ join sep (y # ys)"

definition repr_list :: "string list \<Rightarrow> string" where
  "repr_list xs = ''['' @ join '', '' (map (\<lambda>x. quote @ x @ quote) xs) @ '']''"

definition missing_message :: "string list \<Rightarrow> string" where
  "missing_message missing = ''Missing required column(s): '' @ repr_list missing @ ''.''"

subsection \<open>The store\<close>

text \<open>
  \<^verbatim>\<open>to_long\<close> assigns to a column of \<^verbatim>\<open>df\<close>, which may still be the caller's table. Tables
  therefore live in a store, a variable holds a reference into it (an index), and a new
  table is allocated at the end.
\<close>

type_synonym store = "dataframe list"

definition alloc :: "store \<Rightarrow> dataframe \<Rightarrow> store \<times> nat" where
  "alloc h d = (h @ [d], length h)"

subsection \<open>The steps of \<^verbatim>\<open>to_long\<close>\<close>

text \<open>Lines 44 to 47: the local variable \<^verbatim>\<open>df\<close> is rebound to a new table, or left.\<close>

definition alias_repair :: "store \<Rightarrow> nat \<Rightarrow> store \<times> nat" where
  "alias_repair h df =
     (if ''Station'' \<notin> set (columns_of (h ! df)) \<and> ''Staion'' \<in> set (columns_of (h ! df))
      then alloc h (rename_columns ''Staion'' ''Station'' (h ! df))
      else if ''Station'' \<in> set (columns_of (h ! df)) \<and> ''Staion'' \<in> set (columns_of (h ! df))
      then alloc h (drop_columns ''Staion'' (h ! df))
      else (h, df))"

definition required_id_cols :: "string list" where
  "required_id_cols = [''Date'', ''Station'', ''Common Location'', ''Location'']"

definition missing_cols :: "dataframe \<Rightarrow> string list" where
  "missing_cols df = filter (\<lambda>c. c \<notin> set (columns_of df)) required_id_cols"

text \<open>
  \<^verbatim>\<open>np.issubdtype(dt, np.datetime64)\<close>: numpy cannot interpret an extension dtype of pandas
  and raises \<^verbatim>\<open>TypeError\<close>.
\<close>

definition issubdtype_datetime64 :: "dtype \<Rightarrow> error + bool" where
  "issubdtype_datetime64 dt =
     (case dt of
        Datetime64 \<Rightarrow> Inr True
      | Float64 \<Rightarrow> Inr False
      | Object \<Rightarrow> Inr False
      | DatetimeTZ \<Rightarrow> Inl TypeError
      | StringDtype \<Rightarrow> Inl TypeError)"

text \<open>
  Lines 52 and 53: the test may raise; the assignment changes the table that \<^verbatim>\<open>df\<close>
  refers to.
\<close>

definition coerce_date :: "coerce \<Rightarrow> store \<Rightarrow> nat \<Rightarrow> error + store" where
  "coerce_date K h df =
     (case issubdtype_datetime64 (dtype (getitem (h ! df) ''Date'')) of
        Inl e \<Rightarrow> Inl e
      | Inr is_datetime \<Rightarrow>
          if \<not> is_datetime
          then Inr (h[df := setitem ''Date'' (to_datetime K (getitem (h ! df) ''Date'')) (h ! df)])
          else Inr h)"

definition BMS_NAMES :: "string list" where
  "BMS_NAMES = [''0700_BMS'', ''1100_BMS'', ''1400_BMS'', ''1600_BMS'', ''1800_BMS'', ''2100_BMS'']"

definition MANUAL_NAMES :: "string list" where
  "MANUAL_NAMES = [''Manual07'', ''Manual11'', ''Manual14'', ''Manual16'', ''Manual18'', ''Manual21'']"

definition present :: "dataframe \<Rightarrow> string list \<Rightarrow> string list" where
  "present df names = filter (\<lambda>c. c \<in> set (columns_of df)) names"

text \<open>Lines 72 and 73 on one row.\<close>

definition attach_time_label :: "number melted \<Rightarrow> long_record" where
  "attach_time_label m =
     \<lparr>Date = Date m, Station = Station m, Common_Location = Common_Location m,
      Location = Location m, Time = Time m, Value = Value m, Source = Source m,
      TimeLabel = categorical TIME_ORDER (to_time_label (Time m))\<rparr>"

text \<open>Line 69 on one row: the \<^verbatim>\<open>Value\<close> becomes a float.\<close>

definition numeric_value :: "coerce \<Rightarrow> cell melted \<Rightarrow> number melted" where
  "numeric_value K m =
     \<lparr>Date = Date m, Station = Station m, Common_Location = Common_Location m,
      Location = Location m, Time = Time m, Value = to_numeric K (Value m),
      Source = Source m\<rparr>"

text \<open>Lines 69 to 74.\<close>

definition validate :: "coerce \<Rightarrow> cell melted list \<Rightarrow> long_record list" where
  "validate K out0 =
     (let out1 = map (numeric_value K) out0;
          out2 = filter (\<lambda>m. Value m \<noteq> NaN \<and> \<not> isna (Date m)) out1;
          out3 = filter (\<lambda>m. num_ge (Value m) 15 \<and> num_le (Value m) 50) out2;
          out4 = map attach_time_label out3
      in filter (\<lambda>r. nonblank (Station r) \<and> nonblank (Location r)) out4)"

text \<open>Lines 59 to 67: the manual family first, the automated family second.\<close>

definition reading_frames ::
    "dataframe \<Rightarrow> string list \<Rightarrow> string list \<Rightarrow> error + cell melted list list" where
  "reading_frames df bms_cols manual_cols =
     (case (if manual_cols \<noteq> []
            then (case melt df manual_cols ''Manual'' of Inl e \<Rightarrow> Inl e | Inr m \<Rightarrow> Inr [m])
            else Inr []) of
        Inl e \<Rightarrow> Inl e
      | Inr frames \<Rightarrow>
          if bms_cols \<noteq> []
          then (case melt df bms_cols ''BMS'' of Inl e \<Rightarrow> Inl e | Inr b \<Rightarrow> Inr (frames @ [b]))
          else Inr frames)"

text \<open>
  The function. It returns the store, in which the caller finds its own table at the
  reference it passed, and either the error raised or the rows of the result.
\<close>

definition to_long :: "coerce \<Rightarrow> store \<Rightarrow> nat \<Rightarrow> store \<times> (error + long_record list)" where
  "to_long K h0 df0 =
     (let (h1, df) = alias_repair h0 df0;
          missing = missing_cols (h1 ! df)
      in if missing \<noteq> [] then (h1, Inl (KeyError (missing_message missing)))
         else
           (case coerce_date K h1 df of
              Inl e \<Rightarrow> (h1, Inl e)
            | Inr h2 \<Rightarrow>
                let bms_cols = present (h2 ! df) BMS_NAMES;
                    manual_cols = present (h2 ! df) MANUAL_NAMES
                in if bms_cols = [] \<and> manual_cols = []
                   then (h2, Inl (KeyError ''None of the expected reading columns were found.''))
                   else
                     (case reading_frames (h2 ! df) bms_cols manual_cols of
                        Inl e \<Rightarrow> (h2, Inl e)
                      | Inr frames \<Rightarrow> (h2, Inr (validate K (concat frames))))))"

section \<open>Loading: \<^verbatim>\<open>load_csv_clean\<close>\<close>


text \<open>
  What \<^verbatim>\<open>load_csv_clean\<close> raises: the exception of a read, or the \<^verbatim>\<open>AttributeError\<close> of the
  \<^verbatim>\<open>.str\<close> accessor of line 27.
\<close>

datatype exn = Raised string | AttributeError





text \<open>Lines 25 and 27 on one text: \<^verbatim>\<open>.replace("\xa0", " ")\<close>, then \<^verbatim>\<open>.strip()\<close>.\<close>

definition clean_text :: "string \<Rightarrow> string" where
  "clean_text s = strip (map (\<lambda>c. if c = CHR 0xA0 then CHR '' '' else c) s)"

text \<open>
  The \<^verbatim>\<open>.str\<close> accessor of a column of dtype object. It looks at the values that are not
  missing: if there are some and all are numbers, or all are timestamps, it raises
  \<^verbatim>\<open>AttributeError\<close> (the inferred type is then neither string nor empty nor mixed).
  Otherwise its methods work on the texts and give NaN for every other cell.
\<close>

fun is_number :: "cell \<Rightarrow> bool" where
  "is_number (Number n) = True"
| "is_number c = False"

fun is_stamp :: "cell \<Rightarrow> bool" where
  "is_stamp (Stamp t) = True"
| "is_stamp c = False"

definition str_accessor_raises :: "cell list \<Rightarrow> bool" where
  "str_accessor_raises cs =
     (let vs = filter (\<lambda>c. \<not> isna c) cs
      in vs \<noteq> [] \<and> (list_all is_number vs \<or> list_all is_stamp vs))"

definition clean_cell :: "cell \<Rightarrow> cell" where
  "clean_cell c = (case c of Text s \<Rightarrow> Text (clean_text s) | _ \<Rightarrow> Number NaN)"

text \<open>
  The loop of lines 26 and 27 over the names of the object columns. When a name stands
  for more than one column (two headers that line 25 has made equal), \<^verbatim>\<open>df_local[col]\<close> is
  a table, which has no \<^verbatim>\<open>.str\<close>: \<^verbatim>\<open>AttributeError\<close> again.
\<close>

fun clean_columns :: "dataframe \<Rightarrow> string list \<Rightarrow> exn + dataframe" where
  "clean_columns df [] = Inr df"
| "clean_columns df (col # cols) =
     (if 1 < count_list (columns_of df) col then Inl AttributeError
      else if str_accessor_raises (cells (getitem df col)) then Inl AttributeError
      else clean_columns
             (setitem col ((getitem df col)\<lparr>cells := map clean_cell (cells (getitem df col))\<rparr>) df)
             cols)"

text \<open>Lines 25 to 27.\<close>

definition clean_table :: "dataframe \<Rightarrow> exn + dataframe" where
  "clean_table df0 =
     (let df1 = map (\<lambda>(n, c). (clean_text n, c)) df0;
          object_cols = map fst (filter (\<lambda>(n, c). dtype c = Object) df1)
      in clean_columns df1 object_cols)"


section \<open>Notions used to state the properties\<close>

text \<open>
  The table that \<^verbatim>\<open>to_long\<close> works on after the alias repair of lines 44 to 47; the store
  that lines 52 and 53 leave (the store as it was, when line 52 raises); and the table
  that \<^verbatim>\<open>to_long\<close> works on after those lines.
\<close>

definition repaired :: "store \<Rightarrow> nat \<Rightarrow> dataframe" where
  "repaired h r = (case alias_repair h r of (h1, df) \<Rightarrow> h1 ! df)"

definition dated :: "coerce \<Rightarrow> store \<Rightarrow> nat \<Rightarrow> store" where
  "dated K h df = (case coerce_date K h df of Inl e \<Rightarrow> h | Inr h2 \<Rightarrow> h2)"

definition working :: "coerce \<Rightarrow> store \<Rightarrow> nat \<Rightarrow> dataframe" where
  "working K h r = (case alias_repair h r of (h1, df) \<Rightarrow> dated K h1 df ! df)"

text \<open>
  All melted rows of a table that \<^verbatim>\<open>melt\<close> accepts, in the order of \<^verbatim>\<open>pd.concat\<close>: those of
  the manual readings, then those of the automated ones.
\<close>

definition melted_rows :: "dataframe \<Rightarrow> cell melted list" where
  "melted_rows df =
     melt_rows df (present df MANUAL_NAMES) ''Manual'' @ melt_rows df (present df BMS_NAMES) ''BMS''"

text \<open>
  A blank identifier: a text that is empty once the whitespace around it is removed. A
  missing cell is not a text and so is not blank.
\<close>

definition blank_text :: "cell \<Rightarrow> bool" where
  "blank_text c = (case c of Text s \<Rightarrow> strip s = [] | _ \<Rightarrow> False)"

text \<open>
  The melted rows that the result keeps: the value is a number from 15 to 50, the date
  is not missing, and neither \<^verbatim>\<open>Station\<close> nor \<^verbatim>\<open>Location\<close> is a blank text.
\<close>

definition keep :: "coerce \<Rightarrow> cell melted \<Rightarrow> bool" where
  "keep K m =
     ((case to_numeric K (Value m) of Fin v \<Rightarrow> 15 \<le> v \<and> v \<le> 50 | _ \<Rightarrow> False) \<and>
      Date m \<noteq> NaT \<and> Date m \<noteq> Number NaN \<and>
      \<not> blank_text (Station m) \<and> \<not> blank_text (Location m))"

text \<open>
  The leftmost position of a text at which two digits start, and the label read off
  there: what \<^verbatim>\<open>to_time_label\<close> computes, said by positions.
\<close>

definition digit_pair_at :: "string \<Rightarrow> nat \<Rightarrow> bool" where
  "digit_pair_at s i = (i + 1 < length s \<and> isdigit (s ! i) \<and> isdigit (s ! (i + 1)))"

definition first_digit_pair :: "string \<Rightarrow> nat option" where
  "first_digit_pair s = find (digit_pair_at s) [0..<length s]"

definition label_at_first_pair :: "string \<Rightarrow> string" where
  "label_at_first_pair s =
     (case first_digit_pair s of
        None \<Rightarrow> s
      | Some i \<Rightarrow>
          if i + 3 < length s \<and> isdigit (s ! (i + 2)) \<and> isdigit (s ! (i + 3))
          then [s ! i, s ! (i + 1)] @ '':'' @ [s ! (i + 2), s ! (i + 3)]
          else [s ! i, s ! (i + 1)] @ '':00'')"

text \<open>
  The label as the specification words it: a group of four digits that are a valid hour
  and a valid minute, anywhere in the name, comes first; failing that, a group of two
  digits; failing that, the name.
\<close>

definition valid_time_at :: "string \<Rightarrow> nat \<Rightarrow> bool" where
  "valid_time_at s i =
     (i + 3 < length s \<and>
      (s ! i \<in> set ''01'' \<and> isdigit (s ! (i + 1)) \<or> s ! i = CHR ''2'' \<and> s ! (i + 1) \<in> set ''0123'') \<and>
      s ! (i + 2) \<in> set ''012345'' \<and> isdigit (s ! (i + 3)))"

definition specified_time_label :: "string \<Rightarrow> string" where
  "specified_time_label s =
     (case find (valid_time_at s) [0..<length s] of
        Some i \<Rightarrow> [s ! i, s ! (i + 1)] @ '':'' @ [s ! (i + 2), s ! (i + 3)]
      | None \<Rightarrow>
          (case find (digit_pair_at s) [0..<length s] of
             Some i \<Rightarrow> [s ! i, s ! (i + 1)] @ '':00''
           | None \<Rightarrow> s))"




section \<open>Example inputs\<close>

text \<open>
  A table with the four identifier columns and the reading column \<^verbatim>\<open>1400_BMS\<close>, and
  coercions that know one number and one date, for the examples below.
\<close>

definition readings_table :: "column \<Rightarrow> column \<Rightarrow> column \<Rightarrow> column \<Rightarrow> column \<Rightarrow> dataframe" where
  "readings_table dc sc cc lc vc =
     [(''Date'', dc), (''Station'', sc), (''Common Location'', cc), (''Location'', lc),
      (''1400_BMS'', vc)]"

definition sample_coerce :: coerce where
  "sample_coerce =
     \<lparr>numeric_of = (\<lambda>c. if c = Text ''26.5'' then Fin 26.5 else NaN),
      datetime_of = (\<lambda>cs i. if cs ! i = Text ''2024-01-01'' then Some 1704067200000000000 else None)\<rparr>"






section \<open>The time label\<close>

lemma match_None: "TIME_PAT_match s = None \<longleftrightarrow> \<not> digit_pair_at s 0"
proof (cases s)
  case Nil
  then show ?thesis by (simp add: TIME_PAT_match_def digit_pair_at_def)
next
  case (Cons a t)
  then show ?thesis
    by (cases t) (simp_all add: TIME_PAT_match_def digit_pair_at_def)
qed

lemma find_map_option: "find P (map f xs) = map_option f (find (P \<circ> f) xs)"
  by (induction xs) auto

lemma find_upt_Suc:
  "find P [0..<Suc n] = (if P 0 then Some 0 else map_option Suc (find (P \<circ> Suc) [0..<n]))"
  by (simp add: upt_conv_Cons find_map_option del: upt_Suc flip: map_Suc_upt)

lemma digit_pair_at_Cons: "digit_pair_at (c # cs) \<circ> Suc = digit_pair_at cs"
  by (rule ext) (simp add: digit_pair_at_def)

lemma search_first_pair:
  "TIME_PAT_search s =
     (case first_digit_pair s of None \<Rightarrow> None | Some i \<Rightarrow> TIME_PAT_match (drop i s))"
proof (induction s)
  case Nil
  show ?case by (simp add: first_digit_pair_def)
next
  case (Cons c cs)
  show ?case
  proof (cases "digit_pair_at (c # cs) 0")
    case True
    then obtain g where "TIME_PAT_match (c # cs) = Some g"
      using match_None[of "c # cs"] by (cases "TIME_PAT_match (c # cs)") auto
    with True show ?thesis
      by (simp add: first_digit_pair_def find_upt_Suc del: upt_Suc)
  next
    case False
    then have "TIME_PAT_match (c # cs) = None" by (simp add: match_None)
    with False Cons show ?thesis
      by (simp add: first_digit_pair_def find_upt_Suc digit_pair_at_Cons del: upt_Suc
          split: option.splits)
  qed
qed

lemma first_digit_pair_Some: "first_digit_pair s = Some i \<Longrightarrow> digit_pair_at s i"
  unfolding first_digit_pair_def by (auto simp: find_Some_iff)

lemma take2_drop: "i + 1 < length s \<Longrightarrow> take 2 (drop i s) = [s ! i, s ! (i + 1)]"
  by (simp add: numeral_2_eq_2 take_Suc_conv_app_nth list_eq_iff_nth_eq nth_append less_Suc_eq)

lemma match_at:
  assumes "digit_pair_at s i"
  shows "TIME_PAT_match (drop i s) =
     (if i + 3 < length s \<and> isdigit (s ! (i + 2)) \<and> isdigit (s ! (i + 3))
      then Some (Some [s ! i, s ! (i + 1)], Some [s ! (i + 2), s ! (i + 3)], None)
      else Some (None, None, Some [s ! i, s ! (i + 1)]))"
proof -
  from assms have len: "i + 1 < length s" and d: "isdigit (s ! i)" "isdigit (s ! (i + 1))"
    by (simp_all add: digit_pair_at_def)
  have t2: "take 2 (drop i s) = [s ! i, s ! (i + 1)]" using len by (rule take2_drop)
  have all2: "list_all isdigit (take 2 (drop i s))" using d by (simp add: t2)
  show ?thesis
  proof (cases "i + 3 < length s")
    case True
    have a: "take 2 (drop (i + 2) s) = [s ! (i + 2), s ! (i + 2 + 1)]"
      using True by (intro take2_drop) simp
    have b: "i + 2 + 1 = i + 3" by simp
    have c: "drop 2 (drop i s) = drop (i + 2) s" by (simp add: add.commute)
    have t22: "take 2 (drop 2 (drop i s)) = [s ! (i + 2), s ! (i + 3)]"
      by (simp only: a b c)
    have "take (2 + 2) (drop i s) = take 2 (drop i s) @ take 2 (drop 2 (drop i s))"
      by (rule take_add)
    then have t4: "take 4 (drop i s) = [s ! i, s ! (i + 1), s ! (i + 2), s ! (i + 3)]"
      by (simp add: t2 t22 del: drop_drop)
    from True show ?thesis
      using d len by (simp add: TIME_PAT_match_def t4 t2 t22 del: drop_drop)
  next
    case False
    then show ?thesis
      using d len all2 by (auto simp: TIME_PAT_match_def t2)
  qed
qed

lemma to_time_label_eq: "to_time_label s = label_at_first_pair s"
proof (cases "first_digit_pair s")
  case None
  then show ?thesis
    by (simp add: to_time_label_def label_at_first_pair_def search_first_pair)
next
  case (Some i)
  then have "digit_pair_at s i" by (rule first_digit_pair_Some)
  from match_at[OF this] Some show ?thesis
    by (simp add: to_time_label_def label_at_first_pair_def search_first_pair)
qed

lemma label_1400: "to_time_label ''1400_BMS'' = ''14:00''"
  by (simp add: to_time_label_def TIME_PAT_match_def isdigit_def)

lemma label_Manual07: "to_time_label ''Manual07'' = ''07:00''"
  by (simp add: to_time_label_def TIME_PAT_match_def isdigit_def)

text \<open>
  Claim C3 fails as worded: the pattern checks neither the hour nor the minute, so the
  name \<^verbatim>\<open>2561_BMS\<close> gets the label \<^verbatim>\<open>25:61\<close>, where the wording (no valid time of four
  digits, hence the first two digits and \<^verbatim>\<open>:00\<close>) gives \<^verbatim>\<open>25:00\<close>.
\<close>

theorem to_time_label_unchecked_time:
  "to_time_label ''2561_BMS'' = ''25:61'' \<and> specified_time_label ''2561_BMS'' = ''25:00''"
  by (simp add: to_time_label_def TIME_PAT_match_def isdigit_def specified_time_label_def
      valid_time_at_def digit_pair_at_def upt_conv_Cons)

text \<open>
  Nor is a group of four digits preferred to an earlier group of two: the search stops at
  the leftmost position where either alternative matches.
\<close>

lemma to_time_label_leftmost_wins:
  "to_time_label ''07_1400'' = ''07:00'' \<and> specified_time_label ''07_1400'' = ''14:00''"
  by (simp add: to_time_label_def TIME_PAT_match_def isdigit_def specified_time_label_def
      valid_time_at_def digit_pair_at_def upt_conv_Cons)

text \<open>
  Claim C3, as amended: \<^verbatim>\<open>to_time_label\<close> goes to the leftmost position of the name at
  which two digits start. If four digits start there, the label is the first two, a
  colon and the next two, whatever hour and minute they make; otherwise it is the two
  digits followed by \<^verbatim>\<open>:00\<close>. A name without two digits in a row is returned as it is.
  The names \<^verbatim>\<open>1400_BMS\<close> and \<^verbatim>\<open>Manual07\<close> get \<^verbatim>\<open>14:00\<close> and \<^verbatim>\<open>07:00\<close>.
\<close>

theorem to_time_label_leftmost_digits:
  "to_time_label s = label_at_first_pair s \<and>
   to_time_label ''1400_BMS'' = ''14:00'' \<and> to_time_label ''Manual07'' = ''07:00''"
  using to_time_label_eq label_1400 label_Manual07 by simp

section \<open>The filters\<close>

lemma in_range_Fin: "num_ge n 15 \<and> num_le n 50 \<longleftrightarrow> (\<exists>v. n = Fin v \<and> 15 \<le> v \<and> v \<le> 50)"
  by (cases n) auto

lemma num_ge_not_NaN: "num_ge n lo \<Longrightarrow> n \<noteq> NaN"
  by (cases n) auto

lemma attach_fields [simp]:
  "Date (attach_time_label m) = Date m"
  "Station (attach_time_label m) = Station m"
  "Common_Location (attach_time_label m) = Common_Location m"
  "Location (attach_time_label m) = Location m"
  "Time (attach_time_label m) = Time m"
  "Value (attach_time_label m) = Value m"
  "Source (attach_time_label m) = Source m"
  "TimeLabel (attach_time_label m) = categorical TIME_ORDER (to_time_label (Time m))"
  by (simp_all add: attach_time_label_def)

lemma numeric_fields [simp]:
  "Date (numeric_value K m) = Date m"
  "Station (numeric_value K m) = Station m"
  "Common_Location (numeric_value K m) = Common_Location m"
  "Location (numeric_value K m) = Location m"
  "Time (numeric_value K m) = Time m"
  "Value (numeric_value K m) = to_numeric K (Value m)"
  "Source (numeric_value K m) = Source m"
  by (simp_all add: numeric_value_def)

lemma nonblank_iff: "nonblank c \<longleftrightarrow> \<not> blank_text c"
  by (cases c) (simp_all add: blank_text_def)

lemma keep_code:
  "keep K m \<longleftrightarrow>
     num_ge (to_numeric K (Value m)) 15 \<and> num_le (to_numeric K (Value m)) 50 \<and>
     \<not> isna (Date m) \<and> nonblank (Station m) \<and> nonblank (Location m)"
  by (cases "to_numeric K (Value m)") (auto simp: keep_def isna_def nonblank_iff)

lemma validate_eq:
  "validate K out0 = map (\<lambda>m. attach_time_label (numeric_value K m)) (filter (keep K) out0)"
proof -
  have "\<And>m. (to_numeric K (Value m) \<noteq> NaN \<and> \<not> isna (Date m)) \<and>
        (num_ge (to_numeric K (Value m)) 15 \<and> num_le (to_numeric K (Value m)) 50) \<and>
        (nonblank (Station m) \<and> nonblank (Location m)) \<longleftrightarrow> keep K m"
    using num_ge_not_NaN by (auto simp: keep_code)
  then show ?thesis
    by (simp add: validate_def Let_def filter_map comp_def conj_assoc)
qed




section \<open>The shape of a run\<close>

lemma melt_rows_Nil: "melt_rows df [] src = []"
  by (simp add: melt_rows_def)

lemma reading_frames_cases:
  "reading_frames df bms_cols manual_cols =
     (if ''Value'' \<in> set (columns_of df) \<and> \<not> (bms_cols = [] \<and> manual_cols = [])
      then Inl (ValueError value_name_message)
      else Inr ((if manual_cols \<noteq> [] then [melt_rows df manual_cols ''Manual''] else []) @
                (if bms_cols \<noteq> [] then [melt_rows df bms_cols ''BMS''] else [])))"
  by (simp add: reading_frames_def melt_def)

lemma coerce_date_cases:
  "coerce_date K h df =
     (if dtype (getitem (h ! df) ''Date'') \<in> {DatetimeTZ, StringDtype} then Inl TypeError
      else Inr (dated K h df))"
  by (simp add: coerce_date_def dated_def issubdtype_datetime64_def split: dtype.splits)

lemma dated_cases:
  "dated K h df =
     (if dtype (getitem (h ! df) ''Date'') \<in> {Float64, Object}
      then h[df := setitem ''Date'' (to_datetime K (getitem (h ! df) ''Date'')) (h ! df)]
      else h)"
  by (simp add: coerce_date_def dated_def issubdtype_datetime64_def split: dtype.splits)

lemma to_long_unfold:
  "to_long K h r =
     (if missing_cols (repaired h r) \<noteq> []
      then (fst (alias_repair h r), Inl (KeyError (missing_message (missing_cols (repaired h r)))))
      else if dtype (getitem (repaired h r) ''Date'') \<in> {DatetimeTZ, StringDtype}
      then (dated K (fst (alias_repair h r)) (snd (alias_repair h r)), Inl TypeError)
      else if present (working K h r) BMS_NAMES = [] \<and> present (working K h r) MANUAL_NAMES = []
      then (dated K (fst (alias_repair h r)) (snd (alias_repair h r)),
            Inl (KeyError ''None of the expected reading columns were found.''))
      else if ''Value'' \<in> set (columns_of (working K h r))
      then (dated K (fst (alias_repair h r)) (snd (alias_repair h r)),
            Inl (ValueError value_name_message))
      else (dated K (fst (alias_repair h r)) (snd (alias_repair h r)),
            Inr (validate K (melted_rows (working K h r)))))"
proof -
  obtain h1 df where ar: "alias_repair h r = (h1, df)" by (cases "alias_repair h r")
  have d: "dtype (getitem (h1 ! df) ''Date'') \<in> {DatetimeTZ, StringDtype} \<Longrightarrow> dated K h1 df = h1"
    by (auto simp: dated_cases)
  show ?thesis
    by (auto simp: to_long_def repaired_def working_def melted_rows_def Let_def ar
        coerce_date_cases d reading_frames_cases melt_rows_Nil)
qed






text \<open>A table whose checks pass but which has a column named \<^verbatim>\<open>Value\<close> is refused by \<^verbatim>\<open>melt\<close>.\<close>

lemma to_long_value_column:
  assumes "missing_cols (repaired h r) = []"
    and "dtype (getitem (repaired h r) ''Date'') \<in> {Datetime64, Float64, Object}"
    and "\<not> (present (working K h r) BMS_NAMES = [] \<and> present (working K h r) MANUAL_NAMES = [])"
    and "''Value'' \<in> set (columns_of (working K h r))"
  shows "snd (to_long K h r) = Inl (ValueError value_name_message)"
  using assms by (auto simp: to_long_unfold)

text \<open>A \<^verbatim>\<open>Date\<close> column of an extension dtype stops the run at line 52.\<close>

lemma to_long_extension_dtype:
  assumes "missing_cols (repaired h r) = []"
    and "dtype (getitem (repaired h r) ''Date'') \<in> {DatetimeTZ, StringDtype}"
  shows "snd (to_long K h r) = Inl TypeError"
  using assms by (simp add: to_long_unfold)

lemma to_long_Inr:
  assumes "snd (to_long K h r) = Inr out"
  shows "out = validate K (melted_rows (working K h r))"
  using assms by (simp add: to_long_unfold split: if_splits)

section \<open>Runs on the example table\<close>

lemma readings_columns:
  "columns_of (readings_table dc sc cc lc vc) =
     [''Date'', ''Station'', ''Common Location'', ''Location'', ''1400_BMS'']"
  by (simp add: readings_table_def columns_of_def)

lemma readings_alias: "alias_repair [readings_table dc sc cc lc vc] 0 = ([readings_table dc sc cc lc vc], 0)"
  by (simp add: alias_repair_def readings_columns)

lemma readings_missing: "missing_cols (readings_table dc sc cc lc vc) = []"
  by (simp add: missing_cols_def required_id_cols_def readings_columns)

lemma readings_getitem:
  "getitem (readings_table dc sc cc lc vc) ''Date'' = dc"
  "getitem (readings_table dc sc cc lc vc) ''Station'' = sc"
  "getitem (readings_table dc sc cc lc vc) ''Common Location'' = cc"
  "getitem (readings_table dc sc cc lc vc) ''Location'' = lc"
  "getitem (readings_table dc sc cc lc vc) ''1400_BMS'' = vc"
  by (simp_all add: readings_table_def getitem_def)


lemma readings_present:
  "present (readings_table dc sc cc lc vc) BMS_NAMES = [''1400_BMS'']"
  "present (readings_table dc sc cc lc vc) MANUAL_NAMES = []"
  by (simp_all add: present_def readings_columns BMS_NAMES_def MANUAL_NAMES_def)

lemma readings_melted:
  "melted_rows (readings_table dc sc cc lc vc) =
     map (\<lambda>i. \<lparr>Date = cells dc ! i, Station = cells sc ! i, Common_Location = cells cc ! i,
                Location = cells lc ! i, Time = ''1400_BMS'', Value = cells vc ! i,
                Source = ''BMS''\<rparr>) [0..<length (cells dc)]"
  by (simp add: melted_rows_def readings_present melt_rows_def readings_getitem)
     (simp add: nrows_def readings_table_def)

lemma readings_run_datetime:
  assumes "dtype dc = Datetime64"
  shows "to_long K [readings_table dc sc cc lc vc] 0 =
     ([readings_table dc sc cc lc vc],
      Inr (validate K (melted_rows (readings_table dc sc cc lc vc))))"
  using assms
  by (simp add: to_long_unfold repaired_def working_def readings_alias readings_missing
      dated_cases readings_getitem readings_present readings_columns)


lemma strip_examples: "strip ''A'' = ''A''" "strip ''Platform1'' = ''Platform1''" "strip ''  '' = []" "strip [] = []"
  by (simp_all add: strip_def isspace_def)

lemma three: "[0..<3] = [0, 1, 2]" "[0..<1] = [0]" "[0..<2] = [0,1]" "[0..<4] = [0,1,2,3]"
  by (simp_all add: upt_conv_Cons)

lemma readings_repaired: "repaired [readings_table dc sc cc lc vc] 0 = readings_table dc sc cc lc vc"
  by (simp add: repaired_def readings_alias)





section \<open>The values of the result\<close>

text \<open>
  Claim C1: whenever \<^verbatim>\<open>to_long\<close> returns a result, every row of it has a \<^verbatim>\<open>Value\<close> that is a
  number (not NaN, not an infinity) with \<^verbatim>\<open>15 <= Value <= 50\<close>; no row has the value 5 or
  the value 51.
\<close>

theorem to_long_values_in_range:
  assumes "snd (to_long K h r) = Inr out"
  shows "(\<forall>rec \<in> set out. \<exists>v. Value rec = Fin v \<and> 15 \<le> v \<and> v \<le> 50) \<and>
         (\<forall>rec \<in> set out. Value rec \<noteq> Fin 5 \<and> Value rec \<noteq> Fin 51)"
proof -
  have out: "out = validate K (melted_rows (working K h r))"
    using assms by (rule to_long_Inr)
  have *: "\<exists>v. Value rec = Fin v \<and> 15 \<le> v \<and> v \<le> 50" if "rec \<in> set out" for rec
  proof -
    from that obtain m where "keep K m" and rec: "rec = attach_time_label (numeric_value K m)"
      unfolding out validate_eq by auto
    then have "num_ge (Value rec) 15 \<and> num_le (Value rec) 50"
      by (simp add: keep_code)
    then show ?thesis by (simp only: in_range_Fin)
  qed
  then show ?thesis by fastforce
qed

text \<open>
  Witness for C1: of three rows with the values 26.5, 5 and 51, the run keeps the first.
\<close>

theorem to_long_values_in_range_witness:
  "snd (to_long sample_coerce
      [readings_table
         \<lparr>dtype = Datetime64, cells = [Stamp 1704067200000000000, Stamp 1704067200000000000, Stamp 1704067200000000000]\<rparr>
         \<lparr>dtype = Object, cells = [Text ''A'', Text ''A'', Text ''A'']\<rparr>
         \<lparr>dtype = Object, cells = [Text ''Concourse'', Text ''Concourse'', Text ''Concourse'']\<rparr>
         \<lparr>dtype = Object, cells = [Text ''Platform1'', Text ''Platform1'', Text ''Platform1'']\<rparr>
         \<lparr>dtype = Float64, cells = [Number (Fin 26.5), Number (Fin 5), Number (Fin 51)]\<rparr>] 0) =
    Inr [\<lparr>Date = Stamp 1704067200000000000, Station = Text ''A'', Common_Location = Text ''Concourse'',
          Location = Text ''Platform1'', Time = ''1400_BMS'', Value = Fin 26.5, Source = ''BMS'',
          TimeLabel = Some ''14:00''\<rparr>] \<and>
   (\<exists>v. Value \<lparr>Date = Stamp 1704067200000000000, Station = Text ''A'', Common_Location = Text ''Concourse'',
          Location = Text ''Platform1'', Time = ''1400_BMS'', Value = Fin 26.5, Source = ''BMS'',
          TimeLabel = Some ''14:00''\<rparr> = Fin v \<and> 15 \<le> v \<and> v \<le> 50)"
proof -
  have run: "snd (to_long sample_coerce
      [readings_table
         \<lparr>dtype = Datetime64, cells = [Stamp 1704067200000000000, Stamp 1704067200000000000, Stamp 1704067200000000000]\<rparr>
         \<lparr>dtype = Object, cells = [Text ''A'', Text ''A'', Text ''A'']\<rparr>
         \<lparr>dtype = Object, cells = [Text ''Concourse'', Text ''Concourse'', Text ''Concourse'']\<rparr>
         \<lparr>dtype = Object, cells = [Text ''Platform1'', Text ''Platform1'', Text ''Platform1'']\<rparr>
         \<lparr>dtype = Float64, cells = [Number (Fin 26.5), Number (Fin 5), Number (Fin 51)]\<rparr>] 0) =
    Inr [\<lparr>Date = Stamp 1704067200000000000, Station = Text ''A'', Common_Location = Text ''Concourse'',
          Location = Text ''Platform1'', Time = ''1400_BMS'', Value = Fin 26.5, Source = ''BMS'',
          TimeLabel = Some ''14:00''\<rparr>]"
    by (simp add: readings_run_datetime readings_melted three validate_eq keep_code to_numeric_def
        isna_def strip_examples attach_time_label_def numeric_value_def categorical_def
        label_1400 TIME_ORDER_def)
  from to_long_values_in_range[OF run] run show ?thesis by simp
qed

section \<open>The one-row table\<close>

text \<open>
  Claim C2 fails as worded: the table that has just the columns \<^verbatim>\<open>Date\<close>, \<^verbatim>\<open>Station\<close>,
  \<^verbatim>\<open>Location\<close> and \<^verbatim>\<open>1400_BMS\<close> lacks the required column \<^verbatim>\<open>Common Location\<close>, and
  \<^verbatim>\<open>to_long\<close> raises the error for missing columns instead of returning a row.
\<close>

theorem one_row_table_lacks_common_location:
  "snd (to_long sample_coerce
      [[(''Date'', \<lparr>dtype = Datetime64, cells = [Stamp 1704067200000000000]\<rparr>),
        (''Station'', \<lparr>dtype = Object, cells = [Text ''A'']\<rparr>),
        (''Location'', \<lparr>dtype = Object, cells = [Text ''Platform1'']\<rparr>),
        (''1400_BMS'', \<lparr>dtype = Float64, cells = [Number (Fin 26.5)]\<rparr>)]] 0) =
   Inl (KeyError (''Missing required column(s): ['' @ quote @ ''Common Location'' @ quote @ ''].''))"
  by (simp add: to_long_unfold repaired_def alias_repair_def columns_of_def missing_cols_def
      required_id_cols_def missing_message_def repr_list_def)

text \<open>
  Claim C2, as amended: for the table with one row, \<^verbatim>\<open>Date\<close> a timestamp, \<^verbatim>\<open>Station\<close>
  \<^verbatim>\<open>"A"\<close>, \<^verbatim>\<open>Location\<close> \<^verbatim>\<open>"Platform1"\<close>, \<^verbatim>\<open>1400_BMS\<close> 26.5, a \<^verbatim>\<open>Common Location\<close>
  column with any cell, and no manual reading column, \<^verbatim>\<open>to_long\<close> returns exactly one
  row; its \<^verbatim>\<open>Source\<close> is \<^verbatim>\<open>"BMS"\<close> (the automated family), its \<^verbatim>\<open>TimeLabel\<close> \<^verbatim>\<open>"14:00"\<close> and
  its \<^verbatim>\<open>Value\<close> 26.5. The caller's table stays as it was.
\<close>

theorem one_row_table_one_record:
  "to_long K
     [readings_table \<lparr>dtype = Datetime64, cells = [Stamp d]\<rparr>
        \<lparr>dtype = Object, cells = [Text ''A'']\<rparr>
        \<lparr>dtype = ty, cells = [cl]\<rparr>
        \<lparr>dtype = Object, cells = [Text ''Platform1'']\<rparr>
        \<lparr>dtype = Float64, cells = [Number (Fin 26.5)]\<rparr>] 0 =
   ([readings_table \<lparr>dtype = Datetime64, cells = [Stamp d]\<rparr>
        \<lparr>dtype = Object, cells = [Text ''A'']\<rparr>
        \<lparr>dtype = ty, cells = [cl]\<rparr>
        \<lparr>dtype = Object, cells = [Text ''Platform1'']\<rparr>
        \<lparr>dtype = Float64, cells = [Number (Fin 26.5)]\<rparr>],
    Inr [\<lparr>Date = Stamp d, Station = Text ''A'', Common_Location = cl,
          Location = Text ''Platform1'', Time = ''1400_BMS'', Value = Fin 26.5,
          Source = ''BMS'', TimeLabel = Some ''14:00''\<rparr>])"
  by (simp add: readings_run_datetime readings_melted three validate_eq keep_code to_numeric_def
      isna_def strip_examples attach_time_label_def numeric_value_def categorical_def
      label_1400 TIME_ORDER_def)

section \<open>The alias column\<close>

lemma map_of_drop_columns: "y \<noteq> x \<Longrightarrow> map_of (drop_columns x df) y = map_of df y"
  by (induction df) (auto simp: drop_columns_def)

lemma columns_drop_columns: "set (columns_of (drop_columns x df)) = set (columns_of df) - {x}"
  by (induction df) (auto simp: drop_columns_def columns_of_def)

lemma map_of_rename_new:
  "new \<notin> set (columns_of df) \<Longrightarrow> map_of (rename_columns old new df) new = map_of df old"
  by (induction df) (auto simp: rename_columns_def columns_of_def)

lemma map_of_rename_other:
  "y \<noteq> old \<Longrightarrow> y \<noteq> new \<Longrightarrow> map_of (rename_columns old new df) y = map_of df y"
  by (induction df) (auto simp: rename_columns_def)

lemma columns_rename_columns:
  "columns_of (rename_columns old new df) = map (\<lambda>n. if n = old then new else n) (columns_of df)"
  by (induction df) (auto simp: rename_columns_def columns_of_def)

lemma repaired_cases:
  "repaired h r =
     (if ''Station'' \<notin> set (columns_of (h ! r)) \<and> ''Staion'' \<in> set (columns_of (h ! r))
      then rename_columns ''Staion'' ''Station'' (h ! r)
      else if ''Station'' \<in> set (columns_of (h ! r)) \<and> ''Staion'' \<in> set (columns_of (h ! r))
      then drop_columns ''Staion'' (h ! r)
      else h ! r)"
  by (simp add: repaired_def alias_repair_def alloc_def)

text \<open>
  Claim C4: when the table has both \<^verbatim>\<open>Station\<close> and \<^verbatim>\<open>Staion\<close>, the table that \<^verbatim>\<open>to_long\<close>
  goes on with has the \<^verbatim>\<open>Station\<close> column unchanged and no \<^verbatim>\<open>Staion\<close> column; when it has
  \<^verbatim>\<open>Staion\<close> but not \<^verbatim>\<open>Station\<close>, the \<^verbatim>\<open>Staion\<close> column is there under the name
  \<^verbatim>\<open>Station\<close>.
\<close>

theorem alias_repair_station:
  "(''Station'' \<in> set (columns_of (h ! r)) \<and> ''Staion'' \<in> set (columns_of (h ! r)) \<longrightarrow>
      getitem (repaired h r) ''Station'' = getitem (h ! r) ''Station'' \<and>
      ''Staion'' \<notin> set (columns_of (repaired h r))) \<and>
   (''Station'' \<notin> set (columns_of (h ! r)) \<and> ''Staion'' \<in> set (columns_of (h ! r)) \<longrightarrow>
      getitem (repaired h r) ''Station'' = getitem (h ! r) ''Staion'' \<and>
      ''Station'' \<in> set (columns_of (repaired h r)) \<and>
      ''Staion'' \<notin> set (columns_of (repaired h r)))"
  by (auto simp: repaired_cases getitem_def map_of_drop_columns columns_drop_columns
      map_of_rename_new columns_rename_columns)

text \<open>In both cases every column with another name is kept as it is.\<close>

lemma alias_repair_other_columns:
  "n \<noteq> ''Staion'' \<Longrightarrow> n \<noteq> ''Station'' \<Longrightarrow> map_of (repaired h r) n = map_of (h ! r) n"
  by (simp add: repaired_cases map_of_drop_columns map_of_rename_other)

text \<open>
  Witness for C4: a table with \<^verbatim>\<open>Station = "A"\<close> and \<^verbatim>\<open>Staion = "B"\<close> keeps \<^verbatim>\<open>"A"\<close>; a table
  with \<^verbatim>\<open>Staion = "B"\<close> alone gets \<^verbatim>\<open>Station = "B"\<close>.
\<close>

theorem alias_repair_station_witness:
  "(''Station'' \<in> set (columns_of ([[(''Station'', \<lparr>dtype = Object, cells = [Text ''A'']\<rparr>),
                                      (''Staion'', \<lparr>dtype = Object, cells = [Text ''B'']\<rparr>)]] ! 0)) \<and>
    ''Staion'' \<in> set (columns_of ([[(''Station'', \<lparr>dtype = Object, cells = [Text ''A'']\<rparr>),
                                      (''Staion'', \<lparr>dtype = Object, cells = [Text ''B'']\<rparr>)]] ! 0)) \<and>
    getitem (repaired [[(''Station'', \<lparr>dtype = Object, cells = [Text ''A'']\<rparr>),
                        (''Staion'', \<lparr>dtype = Object, cells = [Text ''B'']\<rparr>)]] 0) ''Station'' =
      \<lparr>dtype = Object, cells = [Text ''A'']\<rparr> \<and>
    ''Staion'' \<notin> set (columns_of (repaired [[(''Station'', \<lparr>dtype = Object, cells = [Text ''A'']\<rparr>),
                        (''Staion'', \<lparr>dtype = Object, cells = [Text ''B'']\<rparr>)]] 0))) \<and>
   (''Station'' \<notin> set (columns_of ([[(''Staion'', \<lparr>dtype = Object, cells = [Text ''B'']\<rparr>)]] ! 0)) \<and>
    ''Staion'' \<in> set (columns_of ([[(''Staion'', \<lparr>dtype = Object, cells = [Text ''B'']\<rparr>)]] ! 0)) \<and>
    getitem (repaired [[(''Staion'', \<lparr>dtype = Object, cells = [Text ''B'']\<rparr>)]] 0) ''Station'' =
      \<lparr>dtype = Object, cells = [Text ''B'']\<rparr> \<and>
    ''Station'' \<in> set (columns_of (repaired [[(''Staion'', \<lparr>dtype = Object, cells = [Text ''B'']\<rparr>)]] 0)) \<and>
    ''Staion'' \<notin> set (columns_of (repaired [[(''Staion'', \<lparr>dtype = Object, cells = [Text ''B'']\<rparr>)]] 0)))"
proof -
  let ?both = "[[(''Station'', \<lparr>dtype = Object, cells = [Text ''A'']\<rparr>),
                 (''Staion'', \<lparr>dtype = Object, cells = [Text ''B'']\<rparr>)]]"
  let ?only = "[[(''Staion'', \<lparr>dtype = Object, cells = [Text ''B'']\<rparr>)]]"
  have b: "''Station'' \<in> set (columns_of (?both ! 0))" "''Staion'' \<in> set (columns_of (?both ! 0))"
    by (simp_all add: columns_of_def)
  have a: "''Station'' \<notin> set (columns_of (?only ! 0))" "''Staion'' \<in> set (columns_of (?only ! 0))"
    by (simp_all add: columns_of_def)
  have gb: "getitem (?both ! 0) ''Station'' = \<lparr>dtype = Object, cells = [Text ''A'']\<rparr>"
    by (simp add: getitem_def)
  have ga: "getitem (?only ! 0) ''Staion'' = \<lparr>dtype = Object, cells = [Text ''B'']\<rparr>"
    by (simp add: getitem_def)
  from alias_repair_station[of ?both 0] b gb alias_repair_station[of ?only 0] a ga show ?thesis
    by (simp only: simp_thms)
qed

section \<open>Missing identifier columns\<close>

lemma join_names:
  "c \<in> set xs \<Longrightarrow> \<exists>u v. join sep (map (\<lambda>x. quote @ x @ quote) xs) = u @ quote @ c @ quote @ v"
proof (induction sep "map (\<lambda>x. quote @ x @ quote) xs" arbitrary: xs rule: join.induct)
  case (1 sep)
  then show ?case by simp
next
  case (2 sep x)
  then have "xs = [c]" by (cases xs) auto
  then show ?case by (auto intro: exI[of _ "[]"])
next
  case (3 sep x y ys)
  then obtain a b bs where xs: "xs = a # b # bs" and x: "x = quote @ a @ quote"
    and y: "y # ys = map (\<lambda>x. quote @ x @ quote) (b # bs)"
    by (cases xs; cases "tl xs") auto
  show ?case
  proof (cases "c = a")
    case True
    have "join sep (map (\<lambda>x. quote @ x @ quote) xs) = [] @ quote @ c @ quote @ (sep @ join sep (y # ys))"
      using xs x y True by simp
    then show ?thesis by blast
  next
    case False
    with 3 xs have "c \<in> set (b # bs)" by simp
    from "3.hyps"(1)[OF y this] obtain u v where
      "join sep (map (\<lambda>x. quote @ x @ quote) (b # bs)) = u @ quote @ c @ quote @ v" by blast
    then have "join sep (map (\<lambda>x. quote @ x @ quote) xs) = (quote @ a @ quote @ sep @ u) @ quote @ c @ quote @ v"
      using xs by simp
    then show ?thesis by blast
  qed
qed

lemma missing_message_names:
  assumes "c \<in> set missing"
  shows "\<exists>u v. missing_message missing = u @ quote @ c @ quote @ v"
proof -
  from join_names[OF assms] obtain u v where
    "join '', '' (map (\<lambda>x. quote @ x @ quote) missing) = u @ quote @ c @ quote @ v" by blast
  then have "missing_message missing =
      (''Missing required column(s): ['' @ u) @ quote @ c @ quote @ (v @ ''].'')"
    by (simp add: missing_message_def repr_list_def)
  then show ?thesis by blast
qed

lemma no_readings_message: "''None of the expected reading columns were found.'' \<noteq> missing_message m"
  by (simp add: missing_message_def)

text \<open>
  Claim C5: when the table lacks, after the alias repair, one of the four identifier
  columns, \<^verbatim>\<open>to_long\<close> raises the \<^verbatim>\<open>KeyError\<close> for missing columns, its message holds the
  quoted name of every missing column, there is no result, and the store the caller
  knows is as before. When all four are there, that error is not raised.
\<close>

theorem to_long_missing_columns:
  "(missing_cols (repaired h r) \<noteq> [] \<longrightarrow>
      snd (to_long K h r) = Inl (KeyError (missing_message (missing_cols (repaired h r)))) \<and>
      take (length h) (fst (to_long K h r)) = h \<and>
      (\<forall>c \<in> set required_id_cols. c \<notin> set (columns_of (repaired h r)) \<longrightarrow>
         (\<exists>u v. missing_message (missing_cols (repaired h r)) = u @ quote @ c @ quote @ v))) \<and>
   (missing_cols (repaired h r) = [] \<longrightarrow>
      (\<forall>m. snd (to_long K h r) \<noteq> Inl (KeyError (missing_message m))))"
proof (intro conjI impI ballI allI)
  assume "missing_cols (repaired h r) \<noteq> []"
  then show "snd (to_long K h r) = Inl (KeyError (missing_message (missing_cols (repaired h r))))"
    by (simp add: to_long_unfold)
next
  assume "missing_cols (repaired h r) \<noteq> []"
  then have "fst (to_long K h r) = fst (alias_repair h r)" by (simp add: to_long_unfold)
  then show "take (length h) (fst (to_long K h r)) = h"
    by (simp add: alias_repair_def alloc_def)
next
  fix c assume "c \<in> set required_id_cols" "c \<notin> set (columns_of (repaired h r))"
  then have "c \<in> set (missing_cols (repaired h r))" by (simp add: missing_cols_def)
  then show "\<exists>u v. missing_message (missing_cols (repaired h r)) = u @ quote @ c @ quote @ v"
    by (rule missing_message_names)
next
  fix m assume "missing_cols (repaired h r) = []"
  then show "snd (to_long K h r) \<noteq> Inl (KeyError (missing_message m))"
    by (simp add: to_long_unfold no_readings_message)
qed

text \<open>
  Witness for C5: a table without \<^verbatim>\<open>Location\<close> fails with a message that names
  \<^verbatim>\<open>Location\<close>; the example table, which has all four, does not raise that error.
\<close>

theorem to_long_missing_columns_witness:
  "missing_cols (repaired
      [[(''Date'', \<lparr>dtype = Datetime64, cells = [Stamp 1704067200000000000]\<rparr>),
        (''Station'', \<lparr>dtype = Object, cells = [Text ''A'']\<rparr>),
        (''Common Location'', \<lparr>dtype = Object, cells = [Text ''Concourse'']\<rparr>),
        (''1400_BMS'', \<lparr>dtype = Float64, cells = [Number (Fin 26.5)]\<rparr>)]] 0) = [''Location''] \<and>
   snd (to_long sample_coerce
      [[(''Date'', \<lparr>dtype = Datetime64, cells = [Stamp 1704067200000000000]\<rparr>),
        (''Station'', \<lparr>dtype = Object, cells = [Text ''A'']\<rparr>),
        (''Common Location'', \<lparr>dtype = Object, cells = [Text ''Concourse'']\<rparr>),
        (''1400_BMS'', \<lparr>dtype = Float64, cells = [Number (Fin 26.5)]\<rparr>)]] 0) =
     Inl (KeyError (''Missing required column(s): ['' @ quote @ ''Location'' @ quote @ ''].'')) \<and>
   missing_cols (repaired
      [readings_table \<lparr>dtype = Datetime64, cells = [Stamp 1704067200000000000]\<rparr>
         \<lparr>dtype = Object, cells = [Text ''A'']\<rparr>
         \<lparr>dtype = Object, cells = [Text ''Concourse'']\<rparr>
         \<lparr>dtype = Object, cells = [Text ''Platform1'']\<rparr>
         \<lparr>dtype = Float64, cells = [Number (Fin 26.5)]\<rparr>] 0) = [] \<and>
   (\<forall>m. snd (to_long sample_coerce
      [readings_table \<lparr>dtype = Datetime64, cells = [Stamp 1704067200000000000]\<rparr>
         \<lparr>dtype = Object, cells = [Text ''A'']\<rparr>
         \<lparr>dtype = Object, cells = [Text ''Concourse'']\<rparr>
         \<lparr>dtype = Object, cells = [Text ''Platform1'']\<rparr>
         \<lparr>dtype = Float64, cells = [Number (Fin 26.5)]\<rparr>] 0) \<noteq> Inl (KeyError (missing_message m)))"
proof -
  let ?t = "[[(''Date'', \<lparr>dtype = Datetime64, cells = [Stamp 1704067200000000000]\<rparr>),
        (''Station'', \<lparr>dtype = Object, cells = [Text ''A'']\<rparr>),
        (''Common Location'', \<lparr>dtype = Object, cells = [Text ''Concourse'']\<rparr>),
        (''1400_BMS'', \<lparr>dtype = Float64, cells = [Number (Fin 26.5)]\<rparr>)]]"
  let ?u = "[readings_table \<lparr>dtype = Datetime64, cells = [Stamp 1704067200000000000]\<rparr>
         \<lparr>dtype = Object, cells = [Text ''A'']\<rparr>
         \<lparr>dtype = Object, cells = [Text ''Concourse'']\<rparr>
         \<lparr>dtype = Object, cells = [Text ''Platform1'']\<rparr>
         \<lparr>dtype = Float64, cells = [Number (Fin 26.5)]\<rparr>]"
  have m: "missing_cols (repaired ?t 0) = [''Location'']"
    by (simp add: repaired_cases columns_of_def missing_cols_def required_id_cols_def)
  have msg: "missing_message [''Location''] =
      ''Missing required column(s): ['' @ quote @ ''Location'' @ quote @ ''].''"
    by (simp add: missing_message_def repr_list_def)
  have n: "missing_cols (repaired ?u 0) = []"
    by (simp add: repaired_cases readings_columns readings_missing)
  from to_long_missing_columns[of ?t 0 sample_coerce] to_long_missing_columns[of ?u 0 sample_coerce] m n msg show ?thesis
    by simp
qed

section \<open>Rows of poor quality\<close>


text \<open>
  Nor does the function return on every table that passes its two checks: it raises
  \<^verbatim>\<open>TypeError\<close> at line 52 on dates with a time zone, whatever the rows hold.
\<close>

lemma timezone_dates_raise:
  "snd (to_long K
      [readings_table \<lparr>dtype = DatetimeTZ, cells = [Stamp d]\<rparr>
         \<lparr>dtype = Object, cells = [Text ''A'']\<rparr>
         \<lparr>dtype = Object, cells = [Text ''C'']\<rparr>
         \<lparr>dtype = Object, cells = [Text ''P'']\<rparr>
         \<lparr>dtype = Float64, cells = [Number (Fin 26.5)]\<rparr>] 0) = Inl TypeError"
  by (simp add: to_long_unfold readings_repaired readings_missing readings_getitem)



section \<open>The time label of a row\<close>


text \<open>
  The categorical conversion of line 73 keeps a label of \<^verbatim>\<open>TIME_ORDER\<close> and puts the missing
  value in the place of any other, as for the name \<^verbatim>\<open>0930_BMS\<close>, which is not a reading
  column of \<^verbatim>\<open>to_long\<close>.
\<close>

lemma categorical_outside: "v \<notin> set cats \<Longrightarrow> categorical cats v = None"
  by (simp add: categorical_def)


lemma label_0930_missing:
  "to_time_label ''0930_BMS'' = ''09:30'' \<and> categorical TIME_ORDER (to_time_label ''0930_BMS'') = None"
  by (simp add: categorical_def TIME_ORDER_def to_time_label_def TIME_PAT_match_def isdigit_def)



section \<open>The caller's table\<close>

lemma alias_repair_store:
  "alias_repair h r = (h1, df) \<Longrightarrow>
     (''Staion'' \<notin> set (columns_of (h ! r)) \<and> h1 = h \<and> df = r) \<or>
     (''Staion'' \<in> set (columns_of (h ! r)) \<and> df = length h \<and> take (length h) h1 = h \<and> length h1 = Suc (length h))"
  by (auto simp: alias_repair_def alloc_def split: if_splits)

lemma dated_other: "a \<noteq> df \<Longrightarrow> dated K h df ! a = h ! a"
  by (simp add: dated_cases)

lemma dated_length: "length (dated K h df) = length h"
  by (simp add: dated_cases)

lemma to_long_store:
  "fst (to_long K h r) =
     (if missing_cols (repaired h r) \<noteq> [] then fst (alias_repair h r)
      else dated K (fst (alias_repair h r)) (snd (alias_repair h r)))"
  by (simp add: to_long_unfold)



text \<open>No other table that the caller knows changes.\<close>

lemma to_long_other_tables:
  assumes "a < length h" and "a \<noteq> r"
  shows "fst (to_long K h r) ! a = h ! a"
proof -
  obtain h1 df where ar: "alias_repair h r = (h1, df)" by (cases "alias_repair h r")
  from alias_repair_store[OF ar] show ?thesis
  proof
    assume "''Staion'' \<notin> set (columns_of (h ! r)) \<and> h1 = h \<and> df = r"
    with assms ar show ?thesis
      by (simp add: to_long_store dated_other)
  next
    assume new: "''Staion'' \<in> set (columns_of (h ! r)) \<and> df = length h \<and>
        take (length h) h1 = h \<and> length h1 = Suc (length h)"
    from new have "h ! a = take (length h) h1 ! a" by simp
    also have "\<dots> = h1 ! a" using assms by simp
    finally have "h1 ! a = h ! a" by simp
    with assms new ar show ?thesis
      by (simp add: to_long_store dated_other)
  qed
qed


section \<open>A blank common location\<close>


lemma names_disjoint: "c \<in> set BMS_NAMES \<Longrightarrow> c \<notin> set MANUAL_NAMES"
  by (auto simp: BMS_NAMES_def MANUAL_NAMES_def)




section \<open>The encodings of the loader\<close>









lemma clean_numbers_only:
  "clean_table [(''Flag'', \<lparr>dtype = Object, cells = [Number (Fin 1), Number NaN]\<rparr>)] =
     Inl AttributeError"
  by (simp add: clean_table_def clean_text_def strip_def isspace_def columns_of_def
      str_accessor_raises_def getitem_def isna_def)

lemma clean_equal_headers:
  "clean_table [(''Station'', \<lparr>dtype = Object, cells = [Text ''A'']\<rparr>),
                (''Station '', \<lparr>dtype = Object, cells = [Text ''B'']\<rparr>)] =
     Inl AttributeError"
  by (simp add: clean_table_def clean_text_def strip_def isspace_def columns_of_def)




end
